theory Spec2Isabelle
  imports Complex_Main
begin

section \<open>Horary ascendant search of \<^verbatim>\<open>vedicastro/horary_chart.py\<close>\<close>

text \<open>
  The module resolves a horary number to a zodiac degree through the KP sub-lord
  division table and scans one day in deci-second steps for the instant at which
  the ascendant reaches that degree.

  Conventions of the embedding:
  \<^item> Python \<^verbatim>\<open>int\<close> is \<open>int\<close>; Python \<^verbatim>\<open>float\<close> is read as an exact \<open>real\<close>
    (no binary64 rounding);
  \<^item> an exception is the \<open>Inl\<close> branch of a result \<open>error + 'a\<close>;
  \<^item> the Swiss Ephemeris binding \<^verbatim>\<open>swe\<close>, the CSV file and \<^verbatim>\<open>dms_to_decdeg\<close> are not part
    of the module; they are parameters of the functions that use them;
  \<^item> output written with \<^verbatim>\<open>print\<close> is not modelled.
\<close>

subsection \<open>Exceptions\<close>

datatype error = TypeError | ValueError | IndexError | KeyError | SweError

subsection \<open>The division table \<^verbatim>\<open>KP_SL_DMS_DATA\<close>\<close>

text \<open>
  A line of \<^verbatim>\<open>KP_SL_Divisions.csv\<close> (the columns the module reads) and a row of the loaded
  frame. Loading numbers the rows \<open>1 .. height\<close> in file order (\<^verbatim>\<open>pl.arange(1, height + 1)\<close>)
  and converts the from-angle with \<^verbatim>\<open>dms_to_decdeg\<close>, here the parameter \<open>dms\<close>. The
  columns derived from the to-angle and the integer encodings are left out: the
  resolver selects \<^verbatim>\<open>Sign\<close>, \<^verbatim>\<open>From_DMS\<close> and \<^verbatim>\<open>From_DecDeg\<close> only.
\<close>

record csv_line =
  csv_Sign :: string
  csv_From_DMS :: string

record kp_row =
  SL_Div_Nr :: int
  Sign :: string
  From_DMS :: string
  From_DecDeg :: real

definition KP_SL_DMS_DATA :: "(string \<Rightarrow> real) \<Rightarrow> csv_line list \<Rightarrow> kp_row list" where
  "KP_SL_DMS_DATA dms csv =
     map (\<lambda>(nr, l). \<lparr>SL_Div_Nr = nr, Sign = csv_Sign l, From_DMS = csv_From_DMS l,
                      From_DecDeg = dms (csv_From_DMS l)\<rparr>)
         (zip [1 .. int (length csv)] csv)"

subsection \<open>\<^verbatim>\<open>get_horary_ascendant_degree\<close>\<close>

text \<open>The dictionary \<^verbatim>\<open>sign_order\<close>; a missing key raises \<^verbatim>\<open>KeyError\<close>.\<close>

definition sign_order :: "string \<rightharpoonup> int" where
  "sign_order = map_of
     [(''Aries'', 0), (''Taurus'', 30), (''Gemini'', 60), (''Cancer'', 90),
      (''Leo'', 120), (''Virgo'', 150), (''Libra'', 180), (''Scorpio'', 210),
      (''Sagittarius'', 240), (''Capricorn'', 270), (''Aquarius'', 300), (''Pisces'', 330)]"

text \<open>The function returns either the row's dictionary, extended by the key
  \<^verbatim>\<open>ZodiacDegreeLocation\<close>, or a message string.\<close>

record horary_data =
  data_Sign :: string
  data_From_DMS :: string
  data_From_DecDeg :: real
  ZodiacDegreeLocation :: real

datatype resolved = Data horary_data | Message string

definition get_horary_ascendant_degree :: "kp_row list \<Rightarrow> int \<Rightarrow> error + resolved" where
  "get_horary_ascendant_degree KP horary_number =
     (if 1 \<le> horary_number \<and> horary_number \<le> 249 then
        (case filter (\<lambda>r. SL_Div_Nr r = horary_number) KP of
           [] \<Rightarrow> Inl IndexError
         | row # _ \<Rightarrow>
             (case sign_order (Sign row) of
                None \<Rightarrow> Inl KeyError
              | Some sign_start_degree \<Rightarrow>
                  Inr (Data \<lparr>data_Sign = Sign row, data_From_DMS = From_DMS row,
                             data_From_DecDeg = From_DecDeg row,
                             ZodiacDegreeLocation =
                               of_int sign_start_degree + From_DecDeg row\<rparr>)))
      else Inr (Message
        ''SL Div Nr. out of range. Please provide a number between 1 and 249.''))"

text \<open>The twelve sign names in zodiac order, to state the layout of \<open>sign_order\<close>.\<close>

definition zodiac_signs :: "string list" where
  "zodiac_signs = [''Aries'', ''Taurus'', ''Gemini'', ''Cancer'', ''Leo'', ''Virgo'',
     ''Libra'', ''Scorpio'', ''Sagittarius'', ''Capricorn'', ''Aquarius'', ''Pisces'']"

subsection \<open>The Swiss Ephemeris binding\<close>

text \<open>
  The sidereal modes named by \<^verbatim>\<open>SWE_AYANAMAS\<close>, and the dictionary itself. The module reads
  it with \<^verbatim>\<open>.get\<close>, which yields \<^verbatim>\<open>None\<close> for a name that is not a key.
\<close>

datatype sidm =
    SIDM_KRISHNAMURTI | SIDM_KRISHNAMURTI_VP291 | SIDM_LAHIRI_1940 | SIDM_LAHIRI_VP285
  | SIDM_LAHIRI_ICRC | SIDM_RAMAN | SIDM_YUKTESHWAR

definition SWE_AYANAMAS :: "string \<rightharpoonup> sidm" where
  "SWE_AYANAMAS = map_of
     [(''Krishnamurti'', SIDM_KRISHNAMURTI), (''Krishnamurti_New'', SIDM_KRISHNAMURTI_VP291),
      (''Lahiri_1940'', SIDM_LAHIRI_1940), (''Lahiri_VP285'', SIDM_LAHIRI_VP285),
      (''Lahiri_ICRC'', SIDM_LAHIRI_ICRC), (''Raman'', SIDM_RAMAN),
      (''Yukteshwar'', SIDM_YUKTESHWAR)]"

text \<open>
  A civil time as the binding passes it around: year, month, day, hour, minutes, seconds.

  The five functions of \<^verbatim>\<open>swe\<close> that the module calls. Each may raise. The sidereal mode
  is process-wide state of the library, written by \<^verbatim>\<open>set_sid_mode\<close> and read by
  \<^verbatim>\<open>houses_ex\<close>; here \<open>houses_ex\<close> receives the value last passed to \<open>set_sid_mode\<close> as
  its first argument. The house system \<^verbatim>\<open>b'P'\<close> and the flag \<^verbatim>\<open>FLG_SIDEREAL\<close> are fixed
  arguments of the one call site and are part of \<open>houses_ex\<close>.
\<close>

type_synonym civil = "int \<times> int \<times> int \<times> int \<times> int \<times> real"

record swe =
  set_sid_mode :: "sidm option \<Rightarrow> error + unit"
  utc_time_zone :: "civil \<Rightarrow> real \<Rightarrow> error + civil"
  utc_to_jd :: "civil \<Rightarrow> error + real \<times> real"
  jdut1_to_utc :: "real \<Rightarrow> error + civil"
  houses_ex :: "sidm option \<Rightarrow> real \<Rightarrow> real \<Rightarrow> real \<Rightarrow> error + real list \<times> real list"

subsection \<open>Python's \<^verbatim>\<open>datetime\<close> and \<^verbatim>\<open>int\<close>\<close>

record datetime =
  dt_year :: int
  dt_month :: int
  dt_day :: int
  dt_hour :: int
  dt_minute :: int
  dt_second :: int
  dt_microsecond :: int

definition is_leap :: "int \<Rightarrow> bool" where
  "is_leap y = (y mod 4 = 0 \<and> (y mod 100 \<noteq> 0 \<or> y mod 400 = 0))"

definition days_in_month :: "int \<Rightarrow> int \<Rightarrow> int" where
  "days_in_month y m =
     (if m = 2 then (if is_leap y then 29 else 28)
      else if m = 4 \<or> m = 6 \<or> m = 9 \<or> m = 11 then 30 else 31)"

text \<open>The constructor \<^verbatim>\<open>datetime(...)\<close> raises \<^verbatim>\<open>ValueError\<close> for a field out of range.\<close>

definition datetime_new :: "int \<Rightarrow> int \<Rightarrow> int \<Rightarrow> int \<Rightarrow> int \<Rightarrow> int \<Rightarrow> int \<Rightarrow> error + datetime" where
  "datetime_new y mo d h mi s us =
     (if 1 \<le> y \<and> y \<le> 9999 \<and> 1 \<le> mo \<and> mo \<le> 12 \<and> 1 \<le> d \<and> d \<le> days_in_month y mo
         \<and> 0 \<le> h \<and> h \<le> 23 \<and> 0 \<le> mi \<and> mi \<le> 59 \<and> 0 \<le> s \<and> s \<le> 59 \<and> 0 \<le> us \<and> us \<le> 999999
      then Inr \<lparr>dt_year = y, dt_month = mo, dt_day = d, dt_hour = h, dt_minute = mi,
                dt_second = s, dt_microsecond = us\<rparr>
      else Inl ValueError)"

text \<open>\<^verbatim>\<open>int(x)\<close> truncates towards zero; \<^verbatim>\<open>x % 1\<close> is the fractional part in \<open>[0, 1)\<close>.\<close>

definition py_int :: "real \<Rightarrow> int" where
  "py_int x = (if 0 \<le> x then \<lfloor>x\<rfloor> else \<lceil>x\<rceil>)"

subsection \<open>\<^verbatim>\<open>jd_to_datetime\<close>\<close>

definition jd_to_datetime :: "swe \<Rightarrow> real \<Rightarrow> real \<Rightarrow> error + datetime" where
  "jd_to_datetime S jdt tz_offset =
     (case jdut1_to_utc S jdt of
        Inl e \<Rightarrow> Inl e
      | Inr utc \<Rightarrow>
          (case utc_time_zone S utc (- tz_offset) of
             Inl e \<Rightarrow> Inl e
           | Inr (year, month, day, hour, minute, seconds) \<Rightarrow>
               (let microseconds = py_int (frac seconds * 1000000)
                in datetime_new year month day hour minute (py_int seconds) microseconds)))"

subsection \<open>\<^verbatim>\<open>find_exact_ascendant_time\<close>\<close>

text \<open>
  The ascendant the loop reads at an instant:
  \<^verbatim>\<open>cusps, _ = swe.houses_ex(current_time, lat, lon, b'P', flags = swe.FLG_SIDEREAL)\<close>
  followed by \<^verbatim>\<open>asc_lon_deg = cusps[0]\<close>, which raises \<^verbatim>\<open>IndexError\<close> on an empty tuple.
\<close>

definition ascendant :: "swe \<Rightarrow> sidm option \<Rightarrow> real \<Rightarrow> real \<Rightarrow> real \<Rightarrow> error + real" where
  "ascendant S mode lat lon current_time =
     (case houses_ex S mode current_time lat lon of
        Inl e \<Rightarrow> Inl e
      | Inr (cusps, ascmc) \<Rightarrow>
          (case cusps of
             [] \<Rightarrow> Inl IndexError
           | asc_lon_deg # _ \<Rightarrow> Inr asc_lon_deg))"

text \<open>
  The \<^verbatim>\<open>while\<close> loop, from the value of \<^verbatim>\<open>current_time\<close> at its head. The result is
  \<open>Inr (Some dt)\<close> for \<^verbatim>\<open>return jd_to_datetime(...)\<close>, \<open>Inr None\<close> for \<^verbatim>\<open>return None\<close>
  after the loop, and \<open>Inl e\<close> for an exception.
\<close>

function scan ::
  "swe \<Rightarrow> sidm option \<Rightarrow> real \<Rightarrow> real \<Rightarrow> real \<Rightarrow> real \<Rightarrow> real \<Rightarrow> real \<Rightarrow> error + datetime option"
where
  "scan S mode utc_offset lat lon horary_asc_deg jd_end current_time =
     (if current_time \<le> jd_end then
        (case jd_to_datetime S current_time utc_offset of
           Inl e \<Rightarrow> Inl e
         | Inr current_time_dt \<Rightarrow>
             (case ascendant S mode lat lon current_time of
                Inl e \<Rightarrow> Inl e
              | Inr asc_lon_deg \<Rightarrow>
                  if \<bar>asc_lon_deg - horary_asc_deg\<bar> < 0.0001 then
                    (case jd_to_datetime S current_time utc_offset of
                       Inl e \<Rightarrow> Inl e
                     | Inr matched_time \<Rightarrow> Inr (Some matched_time))
                  else scan S mode utc_offset lat lon horary_asc_deg jd_end
                         (current_time + 1.0 / (24 * 60 * 60 * 10))))
      else Inr None)"
  by pat_completeness auto
termination
proof (relation "measure (\<lambda>(S, mode, utc_offset, lat, lon, deg, jd_end, t).
                            if t \<le> jd_end then nat \<lfloor>(jd_end - t) * 864000\<rfloor> + 1 else 0)")
  show "wf (measure (\<lambda>(S :: swe, mode :: sidm option, utc_offset :: real, lat :: real,
                        lon :: real, deg :: real, jd_end, t).
                            if t \<le> jd_end then nat \<lfloor>(jd_end - t) * 864000\<rfloor> + 1 else 0))"
    by simp
next
  fix S :: swe and mode :: "sidm option" and utc_offset lat lon deg jd_end t :: real
  assume le: "t \<le> jd_end"
  have eq: "(jd_end - (t + 1.0 / (24 * 60 * 60 * 10))) * 864000 = (jd_end - t) * 864000 - 1"
    by (simp add: algebra_simps)
  have "t + 1.0 / (24 * 60 * 60 * 10) \<le> jd_end \<Longrightarrow>
        nat \<lfloor>(jd_end - t) * 864000 - 1\<rfloor> < nat \<lfloor>(jd_end - t) * 864000\<rfloor>"
  proof -
    assume "t + 1.0 / (24 * 60 * 60 * 10) \<le> jd_end"
    then have "1 \<le> (jd_end - t) * 864000" by (simp add: field_simps)
    then have "1 \<le> \<lfloor>(jd_end - t) * 864000\<rfloor>" by linarith
    then show ?thesis by simp
  qed
  then show "((S, mode, utc_offset, lat, lon, deg, jd_end, t + 1.0 / (24 * 60 * 60 * 10)),
              (S, mode, utc_offset, lat, lon, deg, jd_end, t))
             \<in> measure (\<lambda>(S, mode, utc_offset, lat, lon, deg, jd_end, t).
                            if t \<le> jd_end then nat \<lfloor>(jd_end - t) * 864000\<rfloor> + 1 else 0)"
    using le by (simp only: in_measure prod.case eq if_True split: if_splits) simp
qed

definition find_exact_ascendant_time ::
  "swe \<Rightarrow> int \<Rightarrow> int \<Rightarrow> int \<Rightarrow> real \<Rightarrow> real \<Rightarrow> real \<Rightarrow> real \<Rightarrow> string \<Rightarrow> error + datetime option"
where
  "find_exact_ascendant_time S year month day utc_offset lat lon horary_asc_deg ayanamsa =
     (case set_sid_mode S (SWE_AYANAMAS ayanamsa) of
        Inl e \<Rightarrow> Inl e
      | Inr _ \<Rightarrow>
          (case utc_time_zone S (year, month, day, 0, 0, 0) utc_offset of
             Inl e \<Rightarrow> Inl e
           | Inr utc \<Rightarrow>
               (case utc_to_jd S utc of
                  Inl e \<Rightarrow> Inl e
                | Inr (jd_start, _) \<Rightarrow>
                    (let jd_end = jd_start + 1
                     in scan S (SWE_AYANAMAS ayanamsa) utc_offset lat lon horary_asc_deg
                          jd_end jd_start))))"


text \<open>
  The same loop, returning the values of \<^verbatim>\<open>current_time\<close> with which the body is entered,
  in order: one element for each iteration.
\<close>

function scan_instants ::
  "swe \<Rightarrow> sidm option \<Rightarrow> real \<Rightarrow> real \<Rightarrow> real \<Rightarrow> real \<Rightarrow> real \<Rightarrow> real \<Rightarrow> real list"
where
  "scan_instants S mode utc_offset lat lon horary_asc_deg jd_end current_time =
     (if current_time \<le> jd_end then
        current_time #
        (case jd_to_datetime S current_time utc_offset of
           Inl e \<Rightarrow> []
         | Inr current_time_dt \<Rightarrow>
             (case ascendant S mode lat lon current_time of
                Inl e \<Rightarrow> []
              | Inr asc_lon_deg \<Rightarrow>
                  if \<bar>asc_lon_deg - horary_asc_deg\<bar> < 0.0001 then []
                  else scan_instants S mode utc_offset lat lon horary_asc_deg jd_end
                         (current_time + 1.0 / (24 * 60 * 60 * 10))))
      else [])"
  by pat_completeness auto
termination
  apply (relation "measure (\<lambda>(S, mode, utc_offset, lat, lon, deg, jd_end, t).
                     nat \<lceil>(jd_end - t) * 864000 + 1\<rceil>)")
   apply simp
  apply (simp add: algebra_simps)
  apply linarith
  done

text \<open>
  One pass through the loop body at \<^verbatim>\<open>current_time\<close>: \<open>Inr (Some dt)\<close> when the body
  returns \<open>dt\<close>, \<open>Inl e\<close> when it raises, \<open>Inr None\<close> when it reaches the increment.
\<close>

definition iteration ::
  "swe \<Rightarrow> sidm option \<Rightarrow> real \<Rightarrow> real \<Rightarrow> real \<Rightarrow> real \<Rightarrow> real \<Rightarrow> error + datetime option"
where
  "iteration S mode utc_offset lat lon horary_asc_deg current_time =
     (case jd_to_datetime S current_time utc_offset of
        Inl e \<Rightarrow> Inl e
      | Inr current_time_dt \<Rightarrow>
          (case ascendant S mode lat lon current_time of
             Inl e \<Rightarrow> Inl e
           | Inr asc_lon_deg \<Rightarrow>
               if \<bar>asc_lon_deg - horary_asc_deg\<bar> < 0.0001 then
                 (case jd_to_datetime S current_time utc_offset of
                    Inl e \<Rightarrow> Inl e
                  | Inr matched_time \<Rightarrow> Inr (Some matched_time))
               else Inr None))"

subsection \<open>Stand-ins for the binding\<close>

text \<open>
  Concrete bindings at which the theorems below are instantiated. \<open>stub_swe\<close> knows a
  single day that starts at Julian day \<open>jd0\<close> and handles universal time only (offset
  zero); its ascendant is the function \<open>asc\<close> of the instant. \<open>strict_mode\<close> rejects
  \<^verbatim>\<open>None\<close> as a sidereal mode, \<open>lenient_mode\<close> accepts anything. \<open>day_clock\<close> reads the
  time of day off the Julian day, to a tenth of a second.
\<close>

definition strict_mode :: "sidm option \<Rightarrow> error + unit" where
  "strict_mode m = (case m of None \<Rightarrow> Inl TypeError | Some _ \<Rightarrow> Inr ())"


definition day_clock :: "int \<Rightarrow> int \<Rightarrow> int \<Rightarrow> real \<Rightarrow> real \<Rightarrow> civil" where
  "day_clock y m d jd0 t =
     (let ds = \<lfloor>(t - jd0) * 864000\<rfloor>
      in if ds < 864000 then (y, m, d, ds div 36000, ds div 600 mod 60, of_int (ds mod 600) / 10)
         else (y, m, d + 1, 0, 0, 0))"

definition stub_swe ::
  "(sidm option \<Rightarrow> error + unit) \<Rightarrow> real \<Rightarrow> (real \<Rightarrow> civil) \<Rightarrow> (real \<Rightarrow> real) \<Rightarrow> swe"
where
  "stub_swe ssm jd0 clock asc =
     \<lparr>set_sid_mode = ssm,
      utc_time_zone = (\<lambda>c offset. if offset = 0 then Inr c else Inl SweError),
      utc_to_jd = (\<lambda>c. Inr (jd0, jd0)),
      jdut1_to_utc = (\<lambda>t. Inr (clock t)),
      houses_ex = (\<lambda>mode t lat lon. Inr ([asc t], []))\<rparr>"


text \<open>
  Two bindings for the day \<open>y\<close>-\<open>m\<close>-\<open>d\<close> that starts at Julian day \<open>jd0\<close>. In \<open>rising_swe\<close>
  the ascendant goes once around the zodiac in the day, starting at \<open>0\<close>; in \<open>still_swe a\<close>
  it stays at \<open>a\<close>.
\<close>

definition rising_swe :: "(sidm option \<Rightarrow> error + unit) \<Rightarrow> int \<Rightarrow> int \<Rightarrow> int \<Rightarrow> real \<Rightarrow> swe" where
  "rising_swe ssm y m d jd0 = stub_swe ssm jd0 (day_clock y m d jd0) (\<lambda>t. 360 * (t - jd0))"

definition still_swe :: "real \<Rightarrow> int \<Rightarrow> int \<Rightarrow> int \<Rightarrow> real \<Rightarrow> swe" where
  "still_swe a y m d jd0 = stub_swe strict_mode jd0 (day_clock y m d jd0) (\<lambda>t. a)"


text \<open>A two-line table and a converter that knows its two angle strings.\<close>

definition demo_csv :: "csv_line list" where
  "demo_csv = [\<lparr>csv_Sign = ''Aries'', csv_From_DMS = ''00:00:00''\<rparr>,
               \<lparr>csv_Sign = ''Taurus'', csv_From_DMS = ''10:30:00''\<rparr>]"

definition demo_dms :: "string \<Rightarrow> real" where
  "demo_dms s = (if s = ''10:30:00'' then 10.5 else 0)"


declare scan.simps [simp del] scan_instants.simps [simp del]

section \<open>Properties of the resolver\<close>

lemma sign_order_layout:
  "i < 12 \<Longrightarrow> sign_order (zodiac_signs ! i) = Some (30 * int i)"
proof -
  assume "i < 12"
  then have "i \<in> set [0, 1, 2, 3, 4, 5, 6, 7, 8, 9, 10, 11]"
    by (simp only: set_simps insert_iff empty_iff) presburger
  moreover have "\<forall>i \<in> set [0, 1, 2, 3, 4, 5, 6, 7, 8, 9, 10, 11 :: nat].
      sign_order (zodiac_signs ! i) = Some (30 * int i)"
    by (simp add: sign_order_def zodiac_signs_def)
  ultimately show ?thesis by blast
qed

text \<open>Row \<open>n\<close> of the loaded table is the only one numbered \<open>n\<close>.\<close>

lemma KP_SL_DMS_DATA_lookup:
  assumes "1 \<le> n" "n \<le> int (length csv)"
  shows "filter (\<lambda>r. SL_Div_Nr r = n) (KP_SL_DMS_DATA dms csv) =
         [\<lparr>SL_Div_Nr = n, Sign = csv_Sign (csv ! nat (n - 1)),
           From_DMS = csv_From_DMS (csv ! nat (n - 1)),
           From_DecDeg = dms (csv_From_DMS (csv ! nat (n - 1)))\<rparr>]"
  using assms
proof (induction csv arbitrary: n rule: rev_induct)
  case Nil
  then show ?case by simp
next
  case (snoc l csv)
  have upto: "[1 .. 1 + int (length csv)] = [1 .. int (length csv)] @ [1 + int (length csv)]"
    using upto_rec2 [of 1 "1 + int (length csv)"] by simp
  have nomatch: "filter (\<lambda>r. SL_Div_Nr r = m) (KP_SL_DMS_DATA dms csv) = []"
    if "int (length csv) < m" for m
    using that
    by (auto simp: KP_SL_DMS_DATA_def filter_empty_conv in_set_zip)
  show ?case
  proof (cases "n \<le> int (length csv)")
    case True
    then have "nat (n - 1) < length csv" using snoc.prems by simp
    then show ?thesis
      using snoc.IH [OF snoc.prems(1) True] True
      by (simp add: KP_SL_DMS_DATA_def upto nth_append)
  next
    case False
    then have n: "n = int (length csv) + 1" using snoc.prems by simp
    then show ?thesis
      using nomatch [of n]
      by (simp add: KP_SL_DMS_DATA_def upto nth_append)
  qed
qed

text \<open>
  C4. For a horary number \<open>n\<close> in \<open>[1, 249]\<close> whose line \<open>l\<close> of the table exists, names the
  \<open>i\<close>-th sign of the zodiac and has a from-angle in \<open>[0, 30)\<close>, the resolver returns the
  dictionary with \<^verbatim>\<open>ZodiacDegreeLocation\<close> equal to the sign's start \<open>30 * i\<close> plus the
  from-angle in decimal degrees, and that degree lies in \<open>[0, 360)\<close>.
\<close>

theorem resolver_zodiac_degree:
  assumes "1 \<le> n" and "n \<le> 249" and "n \<le> int (length csv)"
    and "l = csv ! nat (n - 1)"
    and "i < 12" and "csv_Sign l = zodiac_signs ! i"
    and "0 \<le> dms (csv_From_DMS l)" and "dms (csv_From_DMS l) < 30"
  shows "get_horary_ascendant_degree (KP_SL_DMS_DATA dms csv) n =
           Inr (Data \<lparr>data_Sign = csv_Sign l, data_From_DMS = csv_From_DMS l,
                      data_From_DecDeg = dms (csv_From_DMS l),
                      ZodiacDegreeLocation = 30 * real i + dms (csv_From_DMS l)\<rparr>)
         \<and> 0 \<le> 30 * real i + dms (csv_From_DMS l)
         \<and> 30 * real i + dms (csv_From_DMS l) < 360"
proof -
  have start: "sign_order (csv_Sign l) = Some (30 * int i)"
    using assms(5,6) by (simp add: sign_order_layout)
  have row: "filter (\<lambda>r. SL_Div_Nr r = n) (KP_SL_DMS_DATA dms csv) =
         [\<lparr>SL_Div_Nr = n, Sign = csv_Sign l, From_DMS = csv_From_DMS l,
           From_DecDeg = dms (csv_From_DMS l)\<rparr>]"
    using KP_SL_DMS_DATA_lookup [OF assms(1,3)] assms(4) by simp
  have "real i \<le> 11" using assms(5) by simp
  then have "30 * real i + dms (csv_From_DMS l) < 360" using assms(8) by linarith
  moreover have "0 \<le> 30 * real i + dms (csv_From_DMS l)" using assms(7) by simp
  ultimately show ?thesis
    using assms(1,2) by (simp add: get_horary_ascendant_degree_def row start)
qed

theorem resolver_zodiac_degree_witness:
  "(1::int) \<le> 2 \<and> (2::int) \<le> 249 \<and> 2 \<le> int (length demo_csv)
   \<and> (1::nat) < 12 \<and> csv_Sign (demo_csv ! nat (2 - 1)) = zodiac_signs ! 1
   \<and> 0 \<le> demo_dms (csv_From_DMS (demo_csv ! nat (2 - 1)))
   \<and> demo_dms (csv_From_DMS (demo_csv ! nat (2 - 1))) < 30
   \<and> get_horary_ascendant_degree (KP_SL_DMS_DATA demo_dms demo_csv) 2 =
       Inr (Data \<lparr>data_Sign = ''Taurus'', data_From_DMS = ''10:30:00'',
                  data_From_DecDeg = 10.5, ZodiacDegreeLocation = 40.5\<rparr>)"
proof -
  have h: "(1::int) \<le> 2" "(2::int) \<le> 249" "2 \<le> int (length demo_csv)"
    "(1::nat) < 12" "csv_Sign (demo_csv ! nat (2 - 1)) = zodiac_signs ! 1"
    "0 \<le> demo_dms (csv_From_DMS (demo_csv ! nat (2 - 1)))"
    "demo_dms (csv_From_DMS (demo_csv ! nat (2 - 1))) < 30"
    by (simp_all add: demo_csv_def demo_dms_def zodiac_signs_def)
  show ?thesis
    using h resolver_zodiac_degree [where n = 2 and csv = demo_csv and dms = demo_dms
        and l = "demo_csv ! nat (2 - 1)" and i = 1, OF h(1,2,3) refl h(4,5,6,7)]
    by (simp add: demo_csv_def demo_dms_def zodiac_signs_def)
qed

text \<open>
  C3, as the code has it. For a horary number outside \<open>[1, 249]\<close> the resolver raises
  nothing: whatever the table, it returns the message string
  \<^verbatim>\<open>SL Div Nr. out of range. Please provide a number between 1 and 249.\<close> as its value.
\<close>

theorem resolver_out_of_range_message:
  assumes "n < 1 \<or> 249 < n"
  shows "get_horary_ascendant_degree KP n =
           Inr (Message ''SL Div Nr. out of range. Please provide a number between 1 and 249.'')"
  using assms by (auto simp: get_horary_ascendant_degree_def)

theorem resolver_out_of_range_message_witness:
  "((250::int) < 1 \<or> (249::int) < 250)
   \<and> get_horary_ascendant_degree (KP_SL_DMS_DATA demo_dms demo_csv) 250 =
       Inr (Message ''SL Div Nr. out of range. Please provide a number between 1 and 249.'')"
proof -
  have h: "(250::int) < 1 \<or> (249::int) < 250" by simp
  show ?thesis
    using h resolver_out_of_range_message [OF h, of "KP_SL_DMS_DATA demo_dms demo_csv"]
    by simp
qed

text \<open>
  C3, as the claim has it, fails: called with 0 and with 250 the resolver does not
  raise; it returns normally, and the value is the message string.
\<close>

theorem resolver_does_not_raise_counterexample:
  "\<not> isl (get_horary_ascendant_degree (KP_SL_DMS_DATA demo_dms demo_csv) 0)
   \<and> \<not> isl (get_horary_ascendant_degree (KP_SL_DMS_DATA demo_dms demo_csv) 250)"
  by (simp add: get_horary_ascendant_degree_def)

section \<open>Properties of the search\<close>

subsection \<open>The loop, one iteration at a time\<close>

lemma scan_unfold:
  "scan S mode off lat lon deg jd_end t =
     (if t \<le> jd_end then
        (case iteration S mode off lat lon deg t of
           Inr None \<Rightarrow> scan S mode off lat lon deg jd_end (t + 1 / 864000)
         | r \<Rightarrow> r)
      else Inr None)"
  by (subst scan.simps) (simp add: iteration_def split: sum.splits)

lemma scan_instants_unfold:
  "scan_instants S mode off lat lon deg jd_end t =
     (if t \<le> jd_end then
        t # (case iteration S mode off lat lon deg t of
               Inr None \<Rightarrow> scan_instants S mode off lat lon deg jd_end (t + 1 / 864000)
             | _ \<Rightarrow> [])
      else [])"
  by (subst scan_instants.simps) (simp add: iteration_def split: sum.splits)


lemma iteration_Some_iff:
  "iteration S mode off lat lon deg t = Inr (Some dt) \<longleftrightarrow>
     (\<exists>a. ascendant S mode lat lon t = Inr a \<and> \<bar>a - deg\<bar> < 0.0001
          \<and> jd_to_datetime S t off = Inr dt)"
  by (auto simp: iteration_def split: sum.splits)

text \<open>The value of \<^verbatim>\<open>current_time\<close> after \<open>k\<close> increments, starting from \<open>t\<close>.\<close>

lemma increment_shift: "t + 1 / 864000 + real k / 864000 = t + real (Suc k) / 864000"
  by (simp add: add_divide_distrib)

lemma upt_map_shift:
  "t # map (\<lambda>i. t + real (Suc i) / 864000) [0..<n] = map (\<lambda>i. t + real i / 864000) [0..<Suc n]"
proof -
  have "[0..<Suc n] = 0 # map Suc [0..<n]"
    by (simp add: upt_conv_Cons map_Suc_upt del: upt_Suc)
  then show ?thesis
    by (simp add: comp_def del: upt_Suc)
qed

lemma scan_skip:
  "(\<And>j. j < n \<Longrightarrow> t + real j / 864000 \<le> jd_end \<and>
        iteration S mode off lat lon deg (t + real j / 864000) = Inr None) \<Longrightarrow>
   scan S mode off lat lon deg jd_end t = scan S mode off lat lon deg jd_end (t + real n / 864000)"
proof (induction n arbitrary: t)
  case 0
  then show ?case by simp
next
  case (Suc n)
  have first: "t \<le> jd_end" "iteration S mode off lat lon deg t = Inr None"
    using Suc.prems [of 0] by simp_all
  have "scan S mode off lat lon deg jd_end t = scan S mode off lat lon deg jd_end (t + 1 / 864000)"
    using first by (subst scan_unfold) simp
  also have "\<dots> = scan S mode off lat lon deg jd_end (t + 1 / 864000 + real n / 864000)"
  proof (rule Suc.IH)
    fix j assume "j < n"
    then have "Suc j < Suc n" by simp
    from Suc.prems [OF this]
    show "t + 1 / 864000 + real j / 864000 \<le> jd_end \<and>
        iteration S mode off lat lon deg (t + 1 / 864000 + real j / 864000) = Inr None"
      unfolding increment_shift .
  qed
  finally show ?case unfolding increment_shift .
qed

text \<open>
  Every run of the loop is: some number \<open>k\<close> of iterations that reach the increment,
  then either the test \<^verbatim>\<open>current_time <= jd_end\<close> fails or the iteration at the \<open>k\<close>-th
  instant ends the loop.
\<close>

lemma scan_run:
  "\<exists>k. (\<forall>j<k. t + real j / 864000 \<le> jd_end \<and>
              iteration S mode off lat lon deg (t + real j / 864000) = Inr None) \<and>
       (if t + real k / 864000 \<le> jd_end
        then iteration S mode off lat lon deg (t + real k / 864000) \<noteq> Inr None \<and>
             scan S mode off lat lon deg jd_end t =
               iteration S mode off lat lon deg (t + real k / 864000) \<and>
             scan_instants S mode off lat lon deg jd_end t =
               map (\<lambda>i. t + real i / 864000) [0..<Suc k]
        else scan S mode off lat lon deg jd_end t = Inr None \<and>
             scan_instants S mode off lat lon deg jd_end t =
               map (\<lambda>i. t + real i / 864000) [0..<k])"
proof (induction "nat \<lceil>(jd_end - t) * 864000 + 1\<rceil>" arbitrary: t rule: less_induct)
  case less
  show ?case
  proof (cases "t \<le> jd_end")
    case False
    have "scan S mode off lat lon deg jd_end t = Inr None"
      using False by (subst scan_unfold) simp
    moreover have "scan_instants S mode off lat lon deg jd_end t = []"
      using False by (subst scan_instants_unfold) simp
    ultimately show ?thesis using False by (intro exI [of _ 0]) simp
  next
    case True
    show ?thesis
    proof (cases "iteration S mode off lat lon deg t = Inr None")
      case False
      have "scan S mode off lat lon deg jd_end t = iteration S mode off lat lon deg t"
        using True False by (subst scan_unfold) (simp split: sum.splits option.splits)
      moreover have "scan_instants S mode off lat lon deg jd_end t = [t]"
        using True False by (subst scan_instants_unfold) (simp split: sum.splits option.splits)
      ultimately show ?thesis using True False by (intro exI [of _ 0]) simp
    next
      case pass: True
      let ?t' = "t + 1 / 864000"
      have "(jd_end - ?t') * 864000 + 1 = (jd_end - t) * 864000" by (simp add: algebra_simps)
      moreover have "0 \<le> (jd_end - t) * 864000" using True by simp
      ultimately have "nat \<lceil>(jd_end - ?t') * 864000 + 1\<rceil> < nat \<lceil>(jd_end - t) * 864000 + 1\<rceil>"
        by linarith
      from less [OF this] obtain k where
        k: "\<And>j. j < k \<Longrightarrow> ?t' + real j / 864000 \<le> jd_end \<and>
              iteration S mode off lat lon deg (?t' + real j / 864000) = Inr None"
        and r: "if ?t' + real k / 864000 \<le> jd_end
          then iteration S mode off lat lon deg (?t' + real k / 864000) \<noteq> Inr None \<and>
             scan S mode off lat lon deg jd_end ?t' =
               iteration S mode off lat lon deg (?t' + real k / 864000) \<and>
             scan_instants S mode off lat lon deg jd_end ?t' =
               map (\<lambda>i. ?t' + real i / 864000) [0..<Suc k]
          else scan S mode off lat lon deg jd_end ?t' = Inr None \<and>
             scan_instants S mode off lat lon deg jd_end ?t' =
               map (\<lambda>i. ?t' + real i / 864000) [0..<k]"
        by blast
      have step1: "scan S mode off lat lon deg jd_end t = scan S mode off lat lon deg jd_end ?t'"
        using True pass by (subst scan_unfold) simp
      have step2: "scan_instants S mode off lat lon deg jd_end t =
           t # scan_instants S mode off lat lon deg jd_end ?t'"
        using True pass by (subst scan_instants_unfold) simp
      have before: "\<forall>j<Suc k. t + real j / 864000 \<le> jd_end \<and>
              iteration S mode off lat lon deg (t + real j / 864000) = Inr None"
      proof (intro allI impI)
        fix j assume "j < Suc k"
        show "t + real j / 864000 \<le> jd_end \<and>
              iteration S mode off lat lon deg (t + real j / 864000) = Inr None"
        proof (cases j)
          case 0
          with True pass show ?thesis by simp
        next
          case (Suc i)
          with \<open>j < Suc k\<close> have "i < k" by simp
          from k [OF this] show ?thesis unfolding increment_shift Suc .
        qed
      qed
      from r have r2: "if t + real (Suc k) / 864000 \<le> jd_end
          then iteration S mode off lat lon deg (t + real (Suc k) / 864000) \<noteq> Inr None \<and>
             scan S mode off lat lon deg jd_end ?t' =
               iteration S mode off lat lon deg (t + real (Suc k) / 864000) \<and>
             scan_instants S mode off lat lon deg jd_end ?t' =
               map (\<lambda>i. t + real (Suc i) / 864000) [0..<Suc k]
          else scan S mode off lat lon deg jd_end ?t' = Inr None \<and>
             scan_instants S mode off lat lon deg jd_end ?t' =
               map (\<lambda>i. t + real (Suc i) / 864000) [0..<k]"
        unfolding increment_shift .
      have "if t + real (Suc k) / 864000 \<le> jd_end
        then iteration S mode off lat lon deg (t + real (Suc k) / 864000) \<noteq> Inr None \<and>
             scan S mode off lat lon deg jd_end t =
               iteration S mode off lat lon deg (t + real (Suc k) / 864000) \<and>
             scan_instants S mode off lat lon deg jd_end t =
               map (\<lambda>i. t + real i / 864000) [0..<Suc (Suc k)]
        else scan S mode off lat lon deg jd_end t = Inr None \<and>
             scan_instants S mode off lat lon deg jd_end t =
               map (\<lambda>i. t + real i / 864000) [0..<Suc k]"
        unfolding step1 step2 upt_map_shift [symmetric] using r2
        by (simp del: upt_Suc of_nat_Suc split: if_splits)
      with before show ?thesis by blast
    qed
  qed
qed


subsection \<open>The window of one day\<close>

lemma window_le: "jd_start + real k / 864000 \<le> jd_start + 1 \<longleftrightarrow> k \<le> 864000"
  by simp

lemma find_as_scan:
  assumes "set_sid_mode S (SWE_AYANAMAS ayanamsa) = Inr u"
    and "utc_time_zone S (year, month, day, 0, 0, 0) utc_offset = Inr utc"
    and "utc_to_jd S utc = Inr (jd_start, jd_ut1)"
  shows "find_exact_ascendant_time S year month day utc_offset lat lon deg ayanamsa =
         scan S (SWE_AYANAMAS ayanamsa) utc_offset lat lon deg (jd_start + 1) jd_start"
  using assms by (simp add: find_exact_ascendant_time_def)

lemma find_SomeD:
  assumes "find_exact_ascendant_time S year month day utc_offset lat lon deg ayanamsa = Inr (Some dt)"
  obtains u utc jd_start jd_ut1 where
    "set_sid_mode S (SWE_AYANAMAS ayanamsa) = Inr u"
    "utc_time_zone S (year, month, day, 0, 0, 0) utc_offset = Inr utc"
    "utc_to_jd S utc = Inr (jd_start, jd_ut1)"
    "scan S (SWE_AYANAMAS ayanamsa) utc_offset lat lon deg (jd_start + 1) jd_start = Inr (Some dt)"
  using assms
  by (auto simp: find_exact_ascendant_time_def split: sum.splits prod.splits)

lemma window_match_iff:
  "scan S mode off lat lon deg (jd_start + 1) jd_start = Inr (Some dt) \<longleftrightarrow>
     (\<exists>k\<le>864000. iteration S mode off lat lon deg (jd_start + real k / 864000) = Inr (Some dt) \<and>
        (\<forall>j<k. iteration S mode off lat lon deg (jd_start + real j / 864000) = Inr None))"
  (is "?L \<longleftrightarrow> ?R")
proof
  assume ?L
  obtain k where
    before: "\<forall>j<k. jd_start + real j / 864000 \<le> jd_start + 1 \<and>
              iteration S mode off lat lon deg (jd_start + real j / 864000) = Inr None"
    and last: "if jd_start + real k / 864000 \<le> jd_start + 1
        then iteration S mode off lat lon deg (jd_start + real k / 864000) \<noteq> Inr None \<and>
             scan S mode off lat lon deg (jd_start + 1) jd_start =
               iteration S mode off lat lon deg (jd_start + real k / 864000) \<and>
             scan_instants S mode off lat lon deg (jd_start + 1) jd_start =
               map (\<lambda>i. jd_start + real i / 864000) [0..<Suc k]
        else scan S mode off lat lon deg (jd_start + 1) jd_start = Inr None \<and>
             scan_instants S mode off lat lon deg (jd_start + 1) jd_start =
               map (\<lambda>i. jd_start + real i / 864000) [0..<k]"
    using scan_run [of jd_start "jd_start + 1" S mode off lat lon deg] by blast
  from last \<open>?L\<close> have "k \<le> 864000"
    and "iteration S mode off lat lon deg (jd_start + real k / 864000) = Inr (Some dt)"
    unfolding window_le by (auto split: if_splits)
  with before show ?R by blast
next
  assume ?R
  then obtain k where k: "k \<le> 864000"
    and hit: "iteration S mode off lat lon deg (jd_start + real k / 864000) = Inr (Some dt)"
    and before: "\<And>j. j < k \<Longrightarrow>
          iteration S mode off lat lon deg (jd_start + real j / 864000) = Inr None"
    by blast
  have "scan S mode off lat lon deg (jd_start + 1) jd_start =
        scan S mode off lat lon deg (jd_start + 1) (jd_start + real k / 864000)"
  proof (rule scan_skip)
    fix j assume "j < k"
    with k have "j \<le> 864000" by simp
    with before [OF \<open>j < k\<close>]
    show "jd_start + real j / 864000 \<le> jd_start + 1 \<and>
          iteration S mode off lat lon deg (jd_start + real j / 864000) = Inr None"
      unfolding window_le by simp
  qed
  also have "\<dots> = Inr (Some dt)"
    using k hit by (subst scan_unfold) (simp only: window_le, simp)
  finally show ?L .
qed




subsection \<open>The claims about the search\<close>


text \<open>
  C10. A returned datetime has an instant behind it: some \<open>t\<close> in
  \<open>[jd_start, jd_start + 1]\<close> at which the computed ascendant is within \<open>0.0001\<close> of the
  target and whose conversion with the request's offset is the returned datetime.
\<close>

theorem returned_datetime_has_instant:
  assumes "find_exact_ascendant_time S year month day utc_offset lat lon deg ayanamsa
             = Inr (Some dt)"
  shows "\<exists>utc jd_start jd2 t a.
           utc_time_zone S (year, month, day, 0, 0, 0) utc_offset = Inr utc \<and>
           utc_to_jd S utc = Inr (jd_start, jd2) \<and>
           jd_start \<le> t \<and> t \<le> jd_start + 1 \<and>
           ascendant S (SWE_AYANAMAS ayanamsa) lat lon t = Inr a \<and>
           \<bar>a - deg\<bar> < 0.0001 \<and>
           jd_to_datetime S t utc_offset = Inr dt"
proof -
  from assms obtain u utc jd_start jd2 where
    pre: "utc_time_zone S (year, month, day, 0, 0, 0) utc_offset = Inr utc"
      "utc_to_jd S utc = Inr (jd_start, jd2)"
    and sc: "scan S (SWE_AYANAMAS ayanamsa) utc_offset lat lon deg (jd_start + 1) jd_start
               = Inr (Some dt)"
    by (rule find_SomeD)
  from sc obtain k where k: "k \<le> 864000"
    and hit: "iteration S (SWE_AYANAMAS ayanamsa) utc_offset lat lon deg
                (jd_start + real k / 864000) = Inr (Some dt)"
    unfolding window_match_iff by blast
  from hit obtain a where
    a: "ascendant S (SWE_AYANAMAS ayanamsa) lat lon (jd_start + real k / 864000) = Inr a"
      "\<bar>a - deg\<bar> < 0.0001"
      "jd_to_datetime S (jd_start + real k / 864000) utc_offset = Inr dt"
    unfolding iteration_Some_iff by blast
  have "jd_start \<le> jd_start + real k / 864000" by simp
  moreover have "jd_start + real k / 864000 \<le> jd_start + 1"
    using k unfolding window_le .
  ultimately show ?thesis using pre a by blast
qed


text \<open>
  C8. If the ascendant computed at \<open>jd_start\<close> equals the target degree (and the
  conversion of \<open>jd_start\<close> to a datetime succeeds), the search returns that conversion,
  and the body has run once, at \<open>jd_start\<close>.
\<close>

theorem left_endpoint_is_scanned:
  assumes "set_sid_mode S (SWE_AYANAMAS ayanamsa) = Inr u"
    and "utc_time_zone S (year, month, day, 0, 0, 0) utc_offset = Inr utc"
    and "utc_to_jd S utc = Inr (jd_start, jd2)"
    and "jd_to_datetime S jd_start utc_offset = Inr dt"
    and "ascendant S (SWE_AYANAMAS ayanamsa) lat lon jd_start = Inr deg"
  shows "find_exact_ascendant_time S year month day utc_offset lat lon deg ayanamsa = Inr (Some dt)
       \<and> scan_instants S (SWE_AYANAMAS ayanamsa) utc_offset lat lon deg (jd_start + 1) jd_start
           = [jd_start]"
proof -
  have it: "iteration S (SWE_AYANAMAS ayanamsa) utc_offset lat lon deg jd_start = Inr (Some dt)"
    using assms(4,5) by (simp add: iteration_def)
  have "scan S (SWE_AYANAMAS ayanamsa) utc_offset lat lon deg (jd_start + 1) jd_start
          = Inr (Some dt)"
    using it by (subst scan_unfold) simp
  moreover
  have "scan_instants S (SWE_AYANAMAS ayanamsa) utc_offset lat lon deg (jd_start + 1) jd_start
          = [jd_start]"
    using it by (subst scan_instants_unfold) simp
  ultimately show ?thesis
    unfolding find_as_scan [OF assms(1,2,3)] by simp
qed

text \<open>
  C9. The test is on the plain difference. At an instant \<open>t\<close> inside the window where
  the body does not raise and the ascendant \<open>a\<close> has \<open>\<bar>a - deg\<bar> \<ge> 0.0001\<close>, the body
  reaches the increment: the instant is not accepted and the loop goes on with
  \<open>t + 1 / 864000\<close>. Nothing is assumed about the distance around the circle.
\<close>

theorem no_wraparound_in_match_test:
  assumes "t \<le> jd_end"
    and "jd_to_datetime S t utc_offset = Inr dt'"
    and "ascendant S mode lat lon t = Inr a"
    and "0.0001 \<le> \<bar>a - deg\<bar>"
  shows "iteration S mode utc_offset lat lon deg t = Inr None
       \<and> scan S mode utc_offset lat lon deg jd_end t
           = scan S mode utc_offset lat lon deg jd_end (t + 1 / 864000)"
proof -
  have it: "iteration S mode utc_offset lat lon deg t = Inr None"
    using assms(2,3,4) by (simp add: iteration_def)
  then show ?thesis
    using assms(1) by (subst scan_unfold) simp
qed




subsection \<open>The stand-in binding\<close>

lemma stub_calls:
  "set_sid_mode (stub_swe ssm jd0 clock asc) = ssm"
  "utc_time_zone (stub_swe ssm jd0 clock asc) c 0 = Inr c"
  "utc_to_jd (stub_swe ssm jd0 clock asc) c = Inr (jd0, jd0)"
  "ascendant (stub_swe ssm jd0 clock asc) mode lat lon t = Inr (asc t)"
  by (simp_all add: stub_swe_def ascendant_def)

lemma stub_jd_to_datetime:
  "jd_to_datetime (stub_swe ssm jd0 clock asc) t 0 =
     (case clock t of (y, mo, d, h, mi, s) \<Rightarrow>
        datetime_new y mo d h mi (py_int s) (py_int (frac s * 1000000)))"
  by (simp add: jd_to_datetime_def stub_swe_def split: prod.splits)

lemma day_clock_at:
  "day_clock y m d jd0 (jd0 + real k / 864000) =
     (if k < 864000
      then (y, m, d, int k div 36000, int k div 600 mod 60, of_int (int k mod 600) / 10)
      else (y, m, d + 1, 0, 0, 0))"
  by (simp add: day_clock_def Let_def)

lemma py_int_tenths:
  assumes "0 \<le> x"
  shows "py_int (of_int x / 10) = x div 10"
    and "py_int (frac (of_int x / 10) * 1000000) = x mod 10 * 100000"
proof -
  have fl: "\<lfloor>(of_int x :: real) / 10\<rfloor> = x div 10"
    using floor_divide_of_int_eq [of x 10, where ?'a = real] by simp
  show "py_int (of_int x / 10) = x div 10"
    using assms fl by (simp add: py_int_def)
  have "(of_int x :: real) = of_int (10 * (x div 10) + x mod 10)" by simp
  also have "\<dots> = 10 * of_int (x div 10) + of_int (x mod 10)"
    by (simp only: of_int_add of_int_mult of_int_numeral)
  finally have "frac ((of_int x :: real) / 10) = of_int (x mod 10) / 10"
    unfolding frac_def fl by linarith
  then have "frac ((of_int x :: real) / 10) * 1000000 = of_int (x mod 10 * 100000)"
    by simp
  moreover have "0 \<le> x mod 10 * 100000" by simp
  ultimately show "py_int (frac (of_int x / 10) * 1000000) = x mod 10 * 100000"
    by (simp only: py_int_def of_int_0_le_iff if_True floor_of_int)
qed

text \<open>On a valid date the day clock gives a valid datetime at every instant of the window.\<close>

lemma day_clock_datetime:
  assumes "k \<le> 864000"
    and "1 \<le> y" "y \<le> 9999" "1 \<le> m" "m \<le> 12" "1 \<le> d" "d < days_in_month y m"
  shows "jd_to_datetime (stub_swe ssm jd0 (day_clock y m d jd0) asc) (jd0 + real k / 864000) 0 =
     Inr (if k < 864000
          then \<lparr>dt_year = y, dt_month = m, dt_day = d, dt_hour = int k div 36000,
                dt_minute = int k div 600 mod 60, dt_second = int k mod 600 div 10,
                dt_microsecond = int k mod 10 * 100000\<rparr>
          else \<lparr>dt_year = y, dt_month = m, dt_day = d + 1, dt_hour = 0,
                dt_minute = 0, dt_second = 0, dt_microsecond = 0\<rparr>)"
proof (cases "k < 864000")
  case True
  have x: "0 \<le> int k mod 600" by simp
  have us: "int k mod 600 mod 10 = int k mod 10"
    by (simp add: mod_mod_cancel)
  have "jd_to_datetime (stub_swe ssm jd0 (day_clock y m d jd0) asc) (jd0 + real k / 864000) 0 =
        datetime_new y m d (int k div 36000) (int k div 600 mod 60) (int k mod 600 div 10)
          (int k mod 10 * 100000)"
    using True
    by (simp only: stub_jd_to_datetime day_clock_at if_True prod.case py_int_tenths [OF x] us)
  also have "\<dots> = Inr \<lparr>dt_year = y, dt_month = m, dt_day = d, dt_hour = int k div 36000,
                dt_minute = int k div 600 mod 60, dt_second = int k mod 600 div 10,
                dt_microsecond = int k mod 10 * 100000\<rparr>"
    unfolding datetime_new_def
  proof (rule if_P, intro conjI)
    show "int k div 36000 \<le> 23" using True by simp
    show "0 \<le> int k div 36000" by (simp add: pos_imp_zdiv_nonneg_iff)
    have "int k div 600 mod 60 < 60" by simp
    then show "int k div 600 mod 60 \<le> 59" by linarith
    show "0 \<le> int k div 600 mod 60" by simp
    have "int k mod 600 < 600" by simp
    then show "int k mod 600 div 10 \<le> 59" by linarith
    show "0 \<le> int k mod 600 div 10" by (simp add: pos_imp_zdiv_nonneg_iff)
    have "int k mod 10 < 10" by simp
    then show "int k mod 10 * 100000 \<le> 999999" by linarith
    show "0 \<le> int k mod 10 * 100000" by simp
    show "d \<le> days_in_month y m" using assms(7) by simp
  qed (use assms in simp_all)
  finally show ?thesis using True by (simp only: if_True)
next
  case False
  have "jd_to_datetime (stub_swe ssm jd0 (day_clock y m d jd0) asc) (jd0 + real k / 864000) 0 =
        datetime_new y m (d + 1) 0 0 0 0"
    using False
    by (simp add: stub_jd_to_datetime day_clock_at py_int_def)
  also have "\<dots> = Inr \<lparr>dt_year = y, dt_month = m, dt_day = d + 1, dt_hour = 0,
                dt_minute = 0, dt_second = 0, dt_microsecond = 0\<rparr>"
    unfolding datetime_new_def
    by (rule if_P) (use assms in simp)
  finally show ?thesis using False by (simp only: if_False)
qed



lemma rising_calls:
  "set_sid_mode (rising_swe ssm y m d jd0) = ssm"
  "utc_time_zone (rising_swe ssm y m d jd0) c 0 = Inr c"
  "utc_to_jd (rising_swe ssm y m d jd0) c = Inr (jd0, jd0)"
  "ascendant (rising_swe ssm y m d jd0) mode lat lon (jd0 + real k / 864000) = Inr (real k / 2400)"
  by (simp_all add: rising_swe_def stub_calls)

lemma still_calls:
  "set_sid_mode (still_swe a y m d jd0) = strict_mode"
  "utc_time_zone (still_swe a y m d jd0) c 0 = Inr c"
  "utc_to_jd (still_swe a y m d jd0) c = Inr (jd0, jd0)"
  "ascendant (still_swe a y m d jd0) mode lat lon t = Inr a"
  by (simp_all add: still_swe_def stub_calls)

lemma feb_2024: "(1::int) \<le> 2024" "(2024::int) \<le> 9999" "(1::int) \<le> 2" "(2::int) \<le> 12"
  "(1::int) \<le> 5" "5 < days_in_month 2024 2"
  by (simp_all add: days_in_month_def is_leap_def)


lemma rising_datetime:
  assumes "k < 864000"
  shows "jd_to_datetime (rising_swe ssm 2024 2 5 jd0) (jd0 + real k / 864000) 0 =
     Inr \<lparr>dt_year = 2024, dt_month = 2, dt_day = 5, dt_hour = int k div 36000,
          dt_minute = int k div 600 mod 60, dt_second = int k mod 600 div 10,
          dt_microsecond = int k mod 10 * 100000\<rparr>"
proof -
  from assms have "k \<le> 864000" by simp
  from day_clock_datetime [OF this feb_2024] assms show ?thesis
    unfolding rising_swe_def by (simp only: if_True)
qed

lemma rising_iteration:
  assumes "k < 864000"
  shows "iteration (rising_swe ssm 2024 2 5 jd0) mode 0 lat lon deg (jd0 + real k / 864000) =
     (if \<bar>real k / 2400 - deg\<bar> < 0.0001
      then Inr (Some \<lparr>dt_year = 2024, dt_month = 2, dt_day = 5, dt_hour = int k div 36000,
          dt_minute = int k div 600 mod 60, dt_second = int k mod 600 div 10,
          dt_microsecond = int k mod 10 * 100000\<rparr>)
      else Inr None)"
  unfolding iteration_def rising_datetime [OF assms] rising_calls by simp


lemma strict_known: "strict_mode (SWE_AYANAMAS ''Krishnamurti'') = Inr ()"
  by (simp add: strict_mode_def SWE_AYANAMAS_def)


subsection \<open>Instances\<close>



text \<open>With the target \<open>1/2400\<close> degree the second instant of the scan is returned.\<close>

theorem returned_datetime_has_instant_witness:
  "find_exact_ascendant_time (rising_swe strict_mode 2024 2 5 2460345.5)
       2024 2 5 0 11 77 (1 / 2400) ''Krishnamurti'' =
     Inr (Some \<lparr>dt_year = 2024, dt_month = 2, dt_day = 5, dt_hour = 0, dt_minute = 0,
                dt_second = 0, dt_microsecond = 100000\<rparr>)
   \<and> (\<exists>utc jd_start jd2 t a.
         utc_time_zone (rising_swe strict_mode 2024 2 5 2460345.5) (2024, 2, 5, 0, 0, 0) 0
           = Inr utc \<and>
         utc_to_jd (rising_swe strict_mode 2024 2 5 2460345.5) utc = Inr (jd_start, jd2) \<and>
         jd_start \<le> t \<and> t \<le> jd_start + 1 \<and>
         ascendant (rising_swe strict_mode 2024 2 5 2460345.5)
           (SWE_AYANAMAS ''Krishnamurti'') 11 77 t = Inr a \<and>
         \<bar>a - 1 / 2400\<bar> < 0.0001 \<and>
         jd_to_datetime (rising_swe strict_mode 2024 2 5 2460345.5) t 0 =
           Inr \<lparr>dt_year = 2024, dt_month = 2, dt_day = 5, dt_hour = 0, dt_minute = 0,
                dt_second = 0, dt_microsecond = 100000\<rparr>)"
proof -
  define jd0 :: real where "jd0 = 2460345.5"
  let ?S = "rising_swe strict_mode 2024 2 5 jd0"
  let ?mode = "SWE_AYANAMAS ''Krishnamurti''"
  let ?dt = "\<lparr>dt_year = 2024, dt_month = 2, dt_day = 5, dt_hour = 0, dt_minute = 0,
              dt_second = 0, dt_microsecond = 100000\<rparr>"
  have pre: "set_sid_mode ?S ?mode = Inr ()"
    "utc_time_zone ?S (2024, 2, 5, 0, 0, 0) 0 = Inr (2024, 2, 5, 0, 0, 0)"
    "utc_to_jd ?S (2024, 2, 5, 0, 0, 0) = Inr (jd0, jd0)"
    by (simp_all add: rising_calls strict_known)
  have k1: "(1::nat) \<le> 864000" by simp
  have hit: "iteration ?S ?mode 0 11 77 (1 / 2400) (jd0 + real 1 / 864000) = Inr (Some ?dt)"
    using rising_iteration [of 1 strict_mode jd0 ?mode 11 77 "1 / 2400"] by simp
  have miss: "\<forall>j<1. iteration ?S ?mode 0 11 77 (1 / 2400) (jd0 + real j / 864000) = Inr None"
    using rising_iteration [of 0 strict_mode jd0 ?mode 11 77 "1 / 2400"] by simp
  have "scan ?S ?mode 0 11 77 (1 / 2400) (jd0 + 1) jd0 = Inr (Some ?dt)"
    unfolding window_match_iff using k1 hit miss by blast
  then have found: "find_exact_ascendant_time ?S 2024 2 5 0 11 77 (1 / 2400) ''Krishnamurti''
                      = Inr (Some ?dt)"
    unfolding find_as_scan [OF pre] .
  from found returned_datetime_has_instant [OF found] show ?thesis
    unfolding jd0_def by blast
qed




text \<open>With the target 0 the first instant, midnight itself, is returned.\<close>

theorem left_endpoint_is_scanned_witness:
  "find_exact_ascendant_time (rising_swe strict_mode 2024 2 5 2460345.5)
       2024 2 5 0 11 77 0 ''Krishnamurti'' =
     Inr (Some \<lparr>dt_year = 2024, dt_month = 2, dt_day = 5, dt_hour = 0, dt_minute = 0,
                dt_second = 0, dt_microsecond = 0\<rparr>)
   \<and> scan_instants (rising_swe strict_mode 2024 2 5 2460345.5) (SWE_AYANAMAS ''Krishnamurti'')
        0 11 77 0 (2460345.5 + 1) 2460345.5 = [2460345.5]"
proof -
  define jd0 :: real where "jd0 = 2460345.5"
  let ?S = "rising_swe strict_mode 2024 2 5 jd0"
  let ?mode = "SWE_AYANAMAS ''Krishnamurti''"
  have pre: "set_sid_mode ?S ?mode = Inr ()"
    "utc_time_zone ?S (2024, 2, 5, 0, 0, 0) 0 = Inr (2024, 2, 5, 0, 0, 0)"
    "utc_to_jd ?S (2024, 2, 5, 0, 0, 0) = Inr (jd0, jd0)"
    by (simp_all add: rising_calls strict_known)
  have dt0: "jd_to_datetime ?S jd0 0 =
      Inr \<lparr>dt_year = 2024, dt_month = 2, dt_day = 5, dt_hour = 0, dt_minute = 0,
           dt_second = 0, dt_microsecond = 0\<rparr>"
    using rising_datetime [of 0 strict_mode jd0] by simp
  have a0: "ascendant ?S ?mode 11 77 jd0 = Inr 0"
    using rising_calls(4) [of strict_mode 2024 2 5 jd0 ?mode 11 77 0] by simp
  from left_endpoint_is_scanned [OF pre dt0 a0] show ?thesis
    unfolding jd0_def .
qed

text \<open>
  An ascendant of 359.99995 degrees is 0.00005 around the circle from the target 0, and
  is passed over.
\<close>

theorem no_wraparound_in_match_test_witness:
  "min \<bar>359.99995 - 0\<bar> (360 - \<bar>359.99995 - 0\<bar>) < (0.0001 :: real)
   \<and> iteration (still_swe 359.99995 2024 2 5 2460345.5) (Some SIDM_KRISHNAMURTI) 0 11 77 0
        2460345.5 = Inr None
   \<and> scan (still_swe 359.99995 2024 2 5 2460345.5) (Some SIDM_KRISHNAMURTI) 0 11 77 0
        2460345.5 2460345.5 = Inr None"
proof -
  define jd0 :: real where "jd0 = 2460345.5"
  let ?S = "still_swe 359.99995 2024 2 5 jd0"
  let ?mode = "Some SIDM_KRISHNAMURTI"
  have near: "min \<bar>359.99995 - 0\<bar> (360 - \<bar>359.99995 - 0\<bar>) < (0.0001 :: real)" by simp
  have plain: "0.0001 \<le> \<bar>359.99995 - (0 :: real)\<bar>" by simp
  have "(0::nat) \<le> 864000" by simp
  from day_clock_datetime [OF this feb_2024, of strict_mode jd0 "\<lambda>t. 359.99995"]
  obtain dt' where dt': "jd_to_datetime ?S jd0 0 = Inr dt'"
    unfolding still_swe_def by simp
  have a: "ascendant ?S ?mode 11 77 jd0 = Inr 359.99995" by (rule still_calls)
  have "jd0 \<le> jd0" by simp
  from no_wraparound_in_match_test [OF this dt' a plain]
  have it: "iteration ?S ?mode 0 11 77 0 jd0 = Inr None"
    and "scan ?S ?mode 0 11 77 0 jd0 jd0 = scan ?S ?mode 0 11 77 0 jd0 (jd0 + 1 / 864000)"
    by simp_all
  moreover have "scan ?S ?mode 0 11 77 0 jd0 (jd0 + 1 / 864000) = Inr None"
    by (subst scan_unfold) simp
  ultimately have "iteration ?S ?mode 0 11 77 0 jd0 = Inr None
      \<and> scan ?S ?mode 0 11 77 0 jd0 jd0 = Inr None"
    by (simp only: simp_thms)
  with near show ?thesis unfolding jd0_def by (rule conjI)
qed



end
